theory Spec2Isabelle
  imports Main
begin

section \<open>Python strings\<close>

text \<open>
  A Python \<open>str\<close> is a sequence of Unicode code points, so a string is modelled as a list
  of code points (\<open>nat\<close>), and \<open>len\<close>, slicing and \<open>strip\<close> count code points as
  Python does. \<open>U\<close> writes an ASCII literal as such a list.
\<close>

type_synonym ustr = "nat list"

abbreviation U :: "string \<Rightarrow> ustr" where
  "U s \<equiv> map of_char s"

text \<open>The line feed, the only separator of \<open>split('\n')\<close> and \<open>'\n'.join\<close>.\<close>

abbreviation NL :: nat where
  "NL \<equiv> 10"

text \<open>
  \<open>str.isspace\<close> of one code point: the characters \<open>str.strip()\<close> removes.
\<close>

definition is_space :: "nat \<Rightarrow> bool" where
  "is_space c \<longleftrightarrow>
     (9 \<le> c \<and> c \<le> 13) \<or> (28 \<le> c \<and> c \<le> 32) \<or> c = 133 \<or> c = 160 \<or> c = 5760 \<or>
     (8192 \<le> c \<and> c \<le> 8202) \<or> c = 8232 \<or> c = 8233 \<or> c = 8239 \<or> c = 8287 \<or> c = 12288"

definition lstrip :: "ustr \<Rightarrow> ustr" where
  "lstrip s = dropWhile is_space s"

definition rstrip :: "ustr \<Rightarrow> ustr" where
  "rstrip s = rev (dropWhile is_space (rev s))"

definition strip :: "ustr \<Rightarrow> ustr" where
  "strip s = rstrip (lstrip s)"

text \<open>\<open>s.startswith(p)\<close>.\<close>

fun startswith :: "'a list \<Rightarrow> 'a list \<Rightarrow> bool" where
  "startswith s [] = True"
| "startswith [] (p # ps) = False"
| "startswith (c # cs) (p # ps) = (c = p \<and> startswith cs ps)"

text \<open>\<open>p in s\<close> for strings: \<open>p\<close> occurs in \<open>s\<close> as a substring.\<close>

fun contains :: "'a list \<Rightarrow> 'a list \<Rightarrow> bool" where
  "contains [] p = (p = [])"
| "contains (c # cs) p = (startswith (c # cs) p \<or> contains cs p)"

text \<open>
  \<open>s.split('\n')\<close>: the pieces between line feeds, of which there is always at least
  one. \<open>cur\<close> is the piece being read.
\<close>

fun split_from :: "ustr \<Rightarrow> ustr \<Rightarrow> ustr list" where
  "split_from cur [] = [cur]"
| "split_from cur (c # cs) =
     (if c = NL then cur # split_from [] cs else split_from (cur @ [c]) cs)"

definition split_nl :: "ustr \<Rightarrow> ustr list" where
  "split_nl s = split_from [] s"

text \<open>\<open>'\n'.join(xs)\<close>.\<close>

fun join_nl :: "ustr list \<Rightarrow> ustr" where
  "join_nl [] = []"
| "join_nl [x] = x"
| "join_nl (x # y # ys) = x @ NL # join_nl (y # ys)"

text \<open>
  \<open>s.replace(old, new)\<close>: every occurrence of \<open>old\<close>, found from the left and without
  overlap, becomes \<open>new\<close>. With an empty \<open>old\<close> Python puts \<open>new\<close> around every
  character.
\<close>

function replace :: "ustr \<Rightarrow> ustr \<Rightarrow> ustr \<Rightarrow> ustr" where
  "replace old new [] = (if old = [] then new else [])"
| "replace old new (c # cs) =
     (if old = [] then new @ c # replace old new cs
      else if startswith (c # cs) old then new @ replace old new (drop (length old) (c # cs))
      else c # replace old new cs)"
  by pat_completeness auto
termination
  by (relation "measure (\<lambda>(old, new, s). length s)") (auto simp: Suc_le_eq)

section \<open>The section parser\<close>

text \<open>
  A section is the dictionary \<open>parse_markdown\<close> builds. Its \<open>title\<close> is the Python value
  of \<open>current_section\<close>, which is \<open>None\<close> until the first \<open>##\<close> header. The key
  \<open>parent\<close> exists on level-2 records only: \<open>None\<close> here is the missing key, and
  \<open>Some v\<close> the key with the Python value \<open>v\<close>.
\<close>

record Section =
  title :: "ustr option"
  content :: ustr
  level :: nat
  parent :: "ustr option option"

text \<open>The three local variables of the scan.\<close>

record pstate =
  sections :: "Section list"
  current_section :: "ustr option"
  current_content :: "ustr list"

text \<open>Python's truth value of \<open>current_section\<close>: \<open>None\<close> and the empty string are false.\<close>

fun truthy :: "ustr option \<Rightarrow> bool" where
  "truthy None = False"
| "truthy (Some s) = (s \<noteq> [])"

text \<open>
  One turn of the \<open>while\<close> loop of \<open>parse_markdown\<close>: \<open>line\<close> is \<open>lines[i]\<close>, \<open>rest\<close> the
  lines after it. The result is the lines that are left after the \<open>i += 1\<close> that closes
  the turn, and the new values of the variables. In the branch of a code fence the inner
  loop collects the lines up to the next line that starts with a fence (or to the end),
  and the closing \<open>i += 1\<close> steps over that line.
\<close>

definition parse_line :: "ustr \<Rightarrow> ustr list \<Rightarrow> pstate \<Rightarrow> ustr list \<times> pstate" where
  "parse_line line rest st =
     (if startswith line (U ''## '') then
        (rest,
         st\<lparr>sections :=
              (if truthy (current_section st)
               then sections st @
                 [\<lparr>title = current_section st,
                   content = strip (join_nl (current_content st)),
                   level = 1, parent = None\<rparr>]
               else sections st),
            current_section := Some (strip (drop 3 line)),
            current_content := []\<rparr>)
      else if startswith line (U ''### '') then
        (rest,
         st\<lparr>sections :=
              (if current_content st \<noteq> []
               then sections st @
                 [\<lparr>title = current_section st,
                   content = strip (join_nl (current_content st)),
                   level = 1, parent = None\<rparr>]
               else sections st) @
              [\<lparr>title = Some (strip (drop 4 line)), content = [],
                level = 2, parent = Some (current_section st)\<rparr>],
            current_content := []\<rparr>)
      else if startswith line (U ''#### '') then
        (rest,
         st\<lparr>current_content :=
              current_content st @ [NL # strip (drop 5 line) @ [NL]]\<rparr>)
      else if startswith line (U ''```'') then
        (let code_lines = takeWhile (\<lambda>l. \<not> startswith l (U ''```'')) rest
         in (drop 1 (dropWhile (\<lambda>l. \<not> startswith l (U ''```'')) rest),
             st\<lparr>current_content :=
                  current_content st @
                  [U ''\<newline>[CODE]\<newline>'' @ join_nl (take 15 code_lines) @
                   U ''\<newline>[/CODE]\<newline>'']\<rparr>))
      else if startswith line (U ''- '') \<or> startswith line (U ''* '') then
        (rest, st\<lparr>current_content := current_content st @ [line]\<rparr>)
      else if strip line \<noteq> [] \<and> \<not> startswith line (U ''---'') then
        (rest, st\<lparr>current_content := current_content st @ [line]\<rparr>)
      else (rest, st))"

lemma parse_line_shorter: "length (fst (parse_line line rest st)) \<le> length rest"
proof -
  have "length (dropWhile P rest) - 1 \<le> length rest" for P :: "ustr \<Rightarrow> bool"
    using length_dropWhile_le [of P rest] by arith
  then show ?thesis
    by (simp add: parse_line_def Let_def)
qed

text \<open>The loop, on the lines from index \<open>i\<close> on.\<close>

function parse_loop :: "ustr list \<Rightarrow> pstate \<Rightarrow> pstate" where
  "parse_loop [] st = st"
| "parse_loop (line # rest) st =
     (case parse_line line rest st of (rest', st') \<Rightarrow> parse_loop rest' st')"
  by pat_completeness auto
termination
proof (relation "measure (\<lambda>(ls, st). length ls)")
  fix line :: ustr and rest st x1 x2
  assume "(x1, x2) = parse_line line rest st"
  then have "x1 = fst (parse_line line rest st)"
    by (metis fst_conv)
  then show "((x1, x2), line # rest, st) \<in> measure (\<lambda>(ls, st). length ls)"
    using parse_line_shorter [of line rest st] by simp
qed simp

text \<open>The variables as they are set before the loop.\<close>

abbreviation init :: pstate where
  "init \<equiv> \<lparr>sections = [], current_section = None, current_content = []\<rparr>"

text \<open>
  The body of \<open>parse_markdown\<close> once the file is read: split into lines, scan, and add
  the last section.
\<close>

definition parse_text :: "ustr \<Rightarrow> Section list" where
  "parse_text src =
     (let st = parse_loop (split_nl src) init
      in if truthy (current_section st)
         then sections st @
           [\<lparr>title = current_section st,
             content = strip (join_nl (current_content st)),
             level = 1, parent = None\<rparr>]
         else sections st)"

text \<open>
  \<open>parse_markdown(filename)\<close>: the file is opened and read first, and a file that cannot
  be read raises out of the function; nothing else in it raises. \<open>files\<close> gives the decoded
  text of each readable file.
\<close>

datatype error = OSError

definition parse_markdown :: "(string \<rightharpoonup> ustr) \<Rightarrow> string \<Rightarrow> error + Section list" where
  "parse_markdown files filename =
     (case files filename of
        None \<Rightarrow> Inl OSError
      | Some src \<Rightarrow> Inr (parse_text src))"

section \<open>The regular expression of the renderers\<close>

text \<open>
  Both renderers use the pattern \<open>\[CODE\](.*?)\[/CODE\]\<close> with \<open>re.DOTALL\<close>.
  \<open>find_sub p s\<close> is the first occurrence of \<open>p\<close> in \<open>s\<close>: the text before it and the
  text after it. The pattern matches at the first \<open>[CODE]\<close> that has a \<open>[/CODE]\<close> after
  it, the lazy group taking the text up to the first such \<open>[/CODE]\<close>; when the first
  \<open>[CODE]\<close> has none after it, no later one has either, and there is no match.
\<close>

fun find_sub :: "'a list \<Rightarrow> 'a list \<Rightarrow> ('a list \<times> 'a list) option" where
  "find_sub p [] = (if p = [] then Some ([], []) else None)"
| "find_sub p (c # cs) =
     (if startswith (c # cs) p then Some ([], drop (length p) (c # cs))
      else (case find_sub p cs of
              None \<Rightarrow> None
            | Some (before, after) \<Rightarrow> Some (c # before, after)))"

text \<open>
  \<open>re.search\<close> with that pattern: the text before the match, group 1, and the text after
  the match.
\<close>

definition re_search_code :: "ustr \<Rightarrow> (ustr \<times> ustr \<times> ustr) option" where
  "re_search_code s =
     (case find_sub (U ''[CODE]'') s of
        None \<Rightarrow> None
      | Some (pre, r) \<Rightarrow>
          (case find_sub (U ''[/CODE]'') r of
             None \<Rightarrow> None
           | Some (code, post) \<Rightarrow> Some (pre, code, post)))"

lemma startswith_split: "startswith s p \<Longrightarrow> s = p @ drop (length p) s"
  by (induction s p rule: startswith.induct) auto

lemma find_sub_sound: "find_sub p s = Some (b, a) \<Longrightarrow> s = b @ p @ a"
proof (induction s arbitrary: b)
  case Nil
  then show ?case by (simp split: if_splits)
next
  case (Cons c cs)
  show ?case
  proof (cases "startswith (c # cs) p")
    case True
    from True have "c # cs = p @ drop (length p) (c # cs)"
      by (rule startswith_split)
    with True Cons.prems show ?thesis by auto
  next
    case False
    with Cons.prems obtain b' where "find_sub p cs = Some (b', a)" "b = c # b'"
      by (auto split: option.splits)
    with Cons.IH show ?thesis by simp
  qed
qed

lemma re_search_code_shorter:
  "re_search_code s = Some (pre, code, post) \<Longrightarrow> length post < length s"
  by (auto simp: re_search_code_def split: option.splits dest!: find_sub_sound)

text \<open>
  \<open>re.split\<close> with that pattern: the texts between the matches, with group 1 of each
  match between them, so that the even indices are ordinary text and the odd ones code.
\<close>

function re_split_code :: "ustr \<Rightarrow> ustr list" where
  "re_split_code s =
     (case re_search_code s of
        None \<Rightarrow> [s]
      | Some (pre, code, post) \<Rightarrow> pre # code # re_split_code post)"
  by pat_completeness auto
termination
  by (relation "measure length") (auto dest: re_search_code_shorter)

section \<open>The slide renderer\<close>

text \<open>
  The renderer is modelled by what it asks of the slide library: the slides added, the
  title set on each and the paragraphs of its body placeholder. Of a paragraph the model
  keeps the text, the outline level and the font, each \<open>None\<close> while the code has not set
  it. A text frame always holds at least one paragraph: \<open>tf.clear()\<close> removes all but the
  first and empties that one (which is why the code branch can take \<open>tf.paragraphs[0]\<close>),
  and \<open>tf.add_paragraph()\<close> appends a new one.
\<close>

record pptx_paragraph =
  p_text :: ustr
  p_level :: "nat option"
  font_size :: "nat option"
  font_name :: "ustr option"

definition empty_paragraph :: pptx_paragraph where
  "empty_paragraph = \<lparr>p_text = [], p_level = None, font_size = None, font_name = None\<rparr>"

record slide =
  layout :: nat
  slide_title :: "ustr option"
  body :: "pptx_paragraph list"

text \<open>One turn of the loop over \<open>lines[:10]\<close>: the paragraph added for a line.\<close>

definition slide_line :: "ustr \<Rightarrow> pptx_paragraph" where
  "slide_line line =
     (let clean_line = strip (replace (U ''`'') [] (replace (U ''**'') [] line))
      in if startswith clean_line (U ''- '') \<or> startswith clean_line (U ''* '') then
           \<lparr>p_text = drop 2 clean_line, p_level = Some 0,
            font_size = Some 14, font_name = None\<rparr>
         else if startswith clean_line (U ''  - '') \<or> startswith clean_line (U ''  * '') then
           \<lparr>p_text = drop 4 clean_line, p_level = Some 1,
            font_size = Some 14, font_name = None\<rparr>
         else
           \<lparr>p_text = clean_line, p_level = None,
            font_size = Some 14, font_name = None\<rparr>)"

text \<open>
  The body placeholder of a content slide, from the section's content. Where the content
  holds \<open>[CODE]\<close> and the pattern does not match, the placeholder is left as the layout
  made it.
\<close>

definition slide_body :: "ustr \<Rightarrow> pptx_paragraph list" where
  "slide_body text_content =
     (if contains text_content (U ''[CODE]'') then
        (case re_search_code text_content of
           Some (pre, code_group, post) \<Rightarrow>
             [empty_paragraph\<lparr>p_text := take 500 (strip code_group),
                font_size := Some 10, font_name := Some (U ''Courier New'')\<rparr>]
         | None \<Rightarrow> [empty_paragraph])
      else
        empty_paragraph #
        map slide_line (take 10 (filter (\<lambda>l. strip l \<noteq> []) (split_nl text_content))))"

definition content_slide :: "Section \<Rightarrow> slide" where
  "content_slide s = \<lparr>layout = 1, slide_title = title s, body = slide_body (content s)\<rparr>"

definition title_slide :: slide where
  "title_slide =
     \<lparr>layout = 0, slide_title = Some (U ''Data Access Layer dengan Dapper''),
      body = [empty_paragraph\<lparr>p_text := U ''Panduan Lengkap Implementasi Dapper di .NET''\<rparr>]\<rparr>"

text \<open>\<open>create_powerpoint\<close>: the slides of the saved presentation, in order.\<close>

definition create_powerpoint :: "Section list \<Rightarrow> slide list" where
  "create_powerpoint secs = title_slide # map content_slide (filter (\<lambda>s. level s = 1) secs)"

section \<open>The document renderer\<close>

text \<open>
  The renderer is modelled by the story it hands to the layout library: the flowables in
  order. A paragraph carries the Python value given as its text (a title may be \<open>None\<close>)
  and its style; a spacer its height in tenths of an inch.
\<close>

datatype style = Normal | CustomTitle | CustomHeading | CustomSubHeading | CustomBody | Code

datatype flowable =
  Paragraph "ustr option" style
| Preformatted ustr style
| Spacer nat
| PageBreak

text \<open>The bullet the renderer writes before a list item: U+2022 and a space.\<close>

definition bullet :: ustr where
  "bullet = [8226, 32]"

text \<open>
  A line of ordinary text in a section that has code sentinels: the angle brackets are
  escaped first and the ampersand after them.
\<close>

definition pdf_text_line :: "ustr \<Rightarrow> flowable list" where
  "pdf_text_line line =
     (let clean_line = strip (replace (U ''`'') [] (replace (U ''**'') [] line));
          clean_line = replace (U ''>'') (U ''&gt;'') (replace (U ''<'') (U ''&lt;'') clean_line);
          clean_line = replace (U ''&'') (U ''&amp;'') clean_line
      in if startswith clean_line (U ''- '') \<or> startswith clean_line (U ''* '') then
           [Paragraph (Some (bullet @ drop 2 clean_line)) CustomBody]
         else if clean_line \<noteq> [] then [Paragraph (Some clean_line) CustomBody]
         else [])"

text \<open>One element of the split content: ordinary text at an even index, code at an odd one.\<close>

definition pdf_part :: "nat \<times> ustr \<Rightarrow> flowable list" where
  "pdf_part ip =
     (case ip of (i, part) \<Rightarrow>
        if i mod 2 = 0 then
          (if strip part \<noteq> []
           then concat (map pdf_text_line (filter (\<lambda>l. strip l \<noteq> []) (split_nl part)))
           else [])
        else
          map (\<lambda>code_line. Preformatted code_line Code) (take 20 (split_nl (strip part))) @
          [Spacer 1])"

text \<open>
  A line of a section without code sentinels: the ampersand is escaped first and the
  angle brackets after it.
\<close>

definition pdf_plain_line :: "ustr \<Rightarrow> flowable list" where
  "pdf_plain_line line =
     (let clean_line = strip (replace (U ''`'') [] (replace (U ''**'') [] line));
          clean_line = replace (U ''>'') (U ''&gt;'')
                         (replace (U ''<'') (U ''&lt;'')
                            (replace (U ''&'') (U ''&amp;'') clean_line))
      in if startswith clean_line (U ''- '') \<or> startswith clean_line (U ''* '') then
           [Paragraph (Some (bullet @ drop 2 clean_line)) CustomBody]
         else if startswith clean_line (U ''  - '') \<or> startswith clean_line (U ''  * '') then
           [Paragraph (Some (U ''  '' @ bullet @ drop 4 clean_line)) CustomBody]
         else if clean_line \<noteq> [] then [Paragraph (Some clean_line) CustomBody]
         else [])"

text \<open>The flowables of one section.\<close>

definition pdf_section :: "Section \<Rightarrow> flowable list" where
  "pdf_section s =
     (if level s = 1 then
        [Paragraph (title s) CustomHeading, Spacer 2] @
        (if contains (content s) (U ''[CODE]'') then
           concat (map pdf_part (enumerate 0 (re_split_code (content s))))
         else
           concat (map pdf_plain_line (filter (\<lambda>l. strip l \<noteq> []) (split_nl (content s))))) @
        [Spacer 3]
      else if level s = 2 then
        [Paragraph (title s) CustomSubHeading, Spacer 1]
      else [])"

text \<open>\<open>create_pdf\<close>: the story built and handed to \<open>doc.build\<close>.\<close>

definition create_pdf :: "Section list \<Rightarrow> flowable list" where
  "create_pdf secs =
     [Spacer 20,
      Paragraph (Some (U ''Data Access Layer dengan Dapper'')) CustomTitle,
      Spacer 3,
      Paragraph (Some (U ''Panduan Lengkap Implementasi Dapper di .NET'')) Normal,
      PageBreak] @
     concat (map pdf_section secs)"

section \<open>The verifier\<close>

text \<open>
  What the verifier finds on disk. A file is \<open>None\<close> when \<open>os.path.exists\<close> is false.
  Otherwise it is what the statements of the \<open>try\<close> block give: \<open>Raises\<close> when one of them
  raises an \<open>Exception\<close> (the file cannot be opened, read, decoded or loaded), and if
  none does the number of slides of the deck, the bytes of the PDF, the text of the
  documentation. Printing is left out of the model.
\<close>

datatype 'a outcome = Raises | Returns 'a

record disk =
  pptx_file :: "nat outcome option"
  pdf_file :: "ustr outcome option"
  doc_file :: "ustr outcome option"

definition verify_powerpoint :: "disk \<Rightarrow> bool" where
  "verify_powerpoint d =
     (case pptx_file d of
        None \<Rightarrow> False
      | Some Raises \<Rightarrow> False
      | Some (Returns num_slides) \<Rightarrow> if num_slides < 10 then False else True)"

definition verify_pdf :: "disk \<Rightarrow> bool" where
  "verify_pdf d =
     (case pdf_file d of
        None \<Rightarrow> False
      | Some Raises \<Rightarrow> False
      | Some (Returns bytes) \<Rightarrow> if take 5 bytes \<noteq> U ''%PDF-'' then False else True)"

definition required_sections :: "ustr list" where
  "required_sections = [U ''File Presentasi'', U ''Cara Menggunakan'', U ''Regenerate'']"

definition verify_documentation :: "disk \<Rightarrow> bool" where
  "verify_documentation d =
     (case doc_file d of
        None \<Rightarrow> False
      | Some Raises \<Rightarrow> False
      | Some (Returns doc) \<Rightarrow>
          (let missing = filter (\<lambda>s. \<not> contains doc s) required_sections
           in if missing \<noteq> [] then False else True))"

text \<open>The list \<open>results\<close> of \<open>main\<close>, and the value \<open>main\<close> returns to \<open>sys.exit\<close>.\<close>

definition results :: "disk \<Rightarrow> bool list" where
  "results d = [verify_powerpoint d, verify_pdf d, verify_documentation d]"

definition main :: "disk \<Rightarrow> int" where
  "main d = (if list_all (\<lambda>r. r) (results d) then 0 else 1)"

section \<open>Properties of the parser\<close>

lemmas str_eval = split_nl_def strip_def lstrip_def rstrip_def is_space_def

subsection \<open>Levels and contents of the records\<close>

definition level_ok :: "Section \<Rightarrow> bool" where
  "level_ok s \<longleftrightarrow> (level s = 1 \<or> level s = 2 \<and> content s = [])"

lemma parse_line_level_ok:
  "list_all level_ok (sections st) \<Longrightarrow>
   list_all level_ok (sections (snd (parse_line line rest st)))"
  by (simp add: parse_line_def Let_def level_ok_def)

lemma parse_loop_level_ok:
  "list_all level_ok (sections st) \<Longrightarrow> list_all level_ok (sections (parse_loop ls st))"
proof (induction ls st rule: parse_loop.induct)
  case (1 st)
  then show ?case by simp
next
  case (2 line rest st)
  obtain rest' st' where step: "parse_line line rest st = (rest', st')"
    by (cases "parse_line line rest st")
  with parse_line_level_ok [OF "2.prems", of line rest]
  have "list_all level_ok (sections st')" by simp
  with "2.IH" [of rest' st'] step show ?case by simp
qed

lemma parse_text_level_ok: "list_all level_ok (parse_text src)"
proof -
  have "list_all level_ok (sections (parse_loop (split_nl src) init))"
    by (rule parse_loop_level_ok) simp
  then show ?thesis
    by (simp add: parse_text_def Let_def level_ok_def)
qed

text \<open>
  C3: for every input text, every record the parser returns has level 1 or 2, every
  level-2 record has an empty content, and so a record with a non-empty content (the
  accumulated body text, flushed) is a level-1 record.
\<close>

theorem level2_content_empty:
  "\<forall>s\<in>set (parse_text src).
     (level s = 1 \<or> level s = 2) \<and>
     (level s = 2 \<longrightarrow> content s = []) \<and>
     (content s \<noteq> [] \<longrightarrow> level s = 1)"
  using parse_text_level_ok [of src] by (auto simp: list_all_iff level_ok_def)

theorem level2_content_empty_witness:
  "\<lparr>title = Some (U ''Sub''), content = [], level = 2, parent = Some (Some (U ''Intro''))\<rparr>
     \<in> set (parse_text (U ''## Intro\<newline>Some text\<newline>### Sub\<newline>More text''))
   \<and> level \<lparr>title = Some (U ''Sub''), content = [], level = 2,
              parent = Some (Some (U ''Intro''))\<rparr> = 2
   \<and> content \<lparr>title = Some (U ''Sub''), content = [], level = 2,
                parent = Some (Some (U ''Intro''))\<rparr> = []"
  using level2_content_empty [of "U ''## Intro\<newline>Some text\<newline>### Sub\<newline>More text''"]
  by (simp add: parse_text_def parse_line_def str_eval)

subsection \<open>The six-line document\<close>

text \<open>
  C2, as the specification states it, fails: the parser does not return the three records
  \<open>Intro\<close>/\<open>Some text\<close>, \<open>Sub\<close>, \<open>Next\<close>/\<open>More text\nFinal\<close> for the six-line document.
\<close>

theorem six_line_document_counterexample:
  "parse_text (U ''## Intro\<newline>Some text\<newline>### Sub\<newline>More text\<newline>## Next\<newline>Final'') \<noteq>
   [\<lparr>title = Some (U ''Intro''), content = U ''Some text'', level = 1, parent = None\<rparr>,
    \<lparr>title = Some (U ''Sub''), content = [], level = 2, parent = Some (Some (U ''Intro''))\<rparr>,
    \<lparr>title = Some (U ''Next''), content = U ''More text\<newline>Final'', level = 1,
      parent = None\<rparr>]"
  by (simp add: parse_text_def parse_line_def str_eval)

text \<open>
  C2, amended: parsing the six-line document returns exactly four records. The \<open>###\<close> line
  flushes \<open>Some text\<close> under \<open>Intro\<close> and empties the buffer without changing the current
  title, so \<open>More text\<close> is flushed by the next \<open>##\<close> line into a second \<open>Intro\<close> record;
  \<open>Next\<close> holds \<open>Final\<close> alone.
\<close>

theorem six_line_document:
  "parse_text (U ''## Intro\<newline>Some text\<newline>### Sub\<newline>More text\<newline>## Next\<newline>Final'') =
   [\<lparr>title = Some (U ''Intro''), content = U ''Some text'', level = 1, parent = None\<rparr>,
    \<lparr>title = Some (U ''Sub''), content = [], level = 2, parent = Some (Some (U ''Intro''))\<rparr>,
    \<lparr>title = Some (U ''Intro''), content = U ''More text'', level = 1, parent = None\<rparr>,
    \<lparr>title = Some (U ''Next''), content = U ''Final'', level = 1, parent = None\<rparr>]"
  by (simp add: parse_text_def parse_line_def str_eval)

subsection \<open>Lines outside code fences\<close>

lemma startswith_ex: "startswith s p \<Longrightarrow> \<exists>r. s = p @ r"
  using startswith_split by blast

lemma parse_line_no_fence:
  "\<not> startswith line (U ''```'') \<Longrightarrow>
   parse_line line rest st = (rest, snd (parse_line line [] st))"
  by (simp add: parse_line_def)

lemma parse_loop_append:
  "\<forall>l\<in>set pre. \<not> startswith l (U ''```'') \<Longrightarrow>
   parse_loop (pre @ ls) st = parse_loop ls (parse_loop pre st)"
proof (induction pre arbitrary: st)
  case Nil
  show ?case by simp
next
  case (Cons l pre)
  then have nf: "\<not> startswith l (U ''```'')" by simp
  show ?case
    using Cons.IH [of "snd (parse_line l [] st)"] Cons.prems
    by (simp add: parse_line_no_fence [OF nf, of "pre @ ls"] parse_line_no_fence [OF nf, of pre])
qed

subsection \<open>The number of level-1 records\<close>






subsection \<open>A sub-header before any header\<close>

lemma parse_line_keeps_title:
  "\<not> startswith line (U ''## '') \<Longrightarrow>
   current_section (snd (parse_line line rest st)) = current_section st"
  by (simp add: parse_line_def Let_def)

lemma parse_loop_no_header:
  "\<forall>l\<in>set ls. \<not> startswith l (U ''## '') \<and> \<not> startswith l (U ''```'') \<Longrightarrow>
   current_section (parse_loop ls st) = current_section st"
proof (induction ls arbitrary: st)
  case Nil
  show ?case by simp
next
  case (Cons l ls)
  then have nf: "\<not> startswith l (U ''```'')" and nh: "\<not> startswith l (U ''## '')"
    by simp_all
  show ?case
    using Cons.IH [of "snd (parse_line l [] st)"] Cons.prems
      parse_line_keeps_title [OF nh, of "[]" st]
    by (simp add: parse_line_no_fence [OF nf, of ls])
qed

lemma parse_line_sections_grow:
  "\<exists>new. sections (snd (parse_line line rest st)) = sections st @ new"
  by (simp add: parse_line_def Let_def)

lemma parse_loop_sections_grow:
  "\<exists>new. sections (parse_loop ls st) = sections st @ new"
proof (induction ls st rule: parse_loop.induct)
  case (1 st)
  show ?case by simp
next
  case (2 line rest st)
  obtain rest' st' where step: "parse_line line rest st = (rest', st')"
    by (cases "parse_line line rest st")
  from parse_line_sections_grow [of line rest st] step
  obtain new1 where "sections st' = sections st @ new1" by auto
  moreover from "2.IH" [of rest' st'] step
  obtain new2 where "sections (parse_loop rest' st') = sections st' @ new2" by auto
  ultimately show ?case using step by simp
qed

lemma h3_not_h2: "startswith line (U ''### '') \<Longrightarrow> \<not> startswith line (U ''## '')"
  by (auto dest!: startswith_ex)

lemma parse_line_h3:
  assumes "startswith line (U ''### '')"
  shows "parse_line line rest st =
    (rest, st\<lparr>sections := sections st @
              (if current_content st \<noteq> []
               then [\<lparr>title = current_section st,
                      content = strip (join_nl (current_content st)),
                      level = 1, parent = None\<rparr>]
               else []) @
              [\<lparr>title = Some (strip (drop 4 line)), content = [],
                level = 2, parent = Some (current_section st)\<rparr>],
            current_content := []\<rparr>)"
  using assms h3_not_h2 [OF assms] by (simp add: parse_line_def)

text \<open>
  C10: let a readable file hold a line that starts with \<open>###\<close> and a space, with no
  \<open>##\<close> header line (and no code fence, which would swallow lines) before it. Then
  \<open>parse_markdown\<close> returns records, it does not raise: the records made so far, then the
  content pending at that line, if there is any, as a level-1 record whose title is
  \<open>None\<close>, then the level-2 record of the sub-header with the key \<open>parent\<close> set to \<open>None\<close>,
  then the records of the lines after it.
\<close>

theorem subheader_before_header:
  assumes "files filename = Some src"
    and "split_nl src = pre @ line # rest"
    and "\<forall>l\<in>set pre. \<not> startswith l (U ''## '') \<and> \<not> startswith l (U ''```'')"
    and "startswith line (U ''### '')"
  shows "\<exists>after.
     parse_markdown files filename =
       Inr (sections (parse_loop pre init) @
            (if current_content (parse_loop pre init) \<noteq> []
             then [\<lparr>title = None,
                    content = strip (join_nl (current_content (parse_loop pre init))),
                    level = 1, parent = None\<rparr>]
             else []) @
            [\<lparr>title = Some (strip (drop 4 line)), content = [], level = 2,
              parent = Some None\<rparr>] @
            after)"
proof -
  let ?st = "parse_loop pre init"
  let ?st' = "snd (parse_line line rest ?st)"
  have none: "current_section ?st = None"
    using parse_loop_no_header [OF assms(3), of init] by simp
  have "parse_loop (split_nl src) init = parse_loop (line # rest) ?st"
    using assms(2,3) parse_loop_append [of pre "line # rest" init] by simp
  also have "\<dots> = parse_loop rest ?st'"
    by (simp add: parse_line_h3 [OF assms(4)])
  finally have run: "parse_loop (split_nl src) init = parse_loop rest ?st'" .
  obtain new where new: "sections (parse_loop rest ?st') = sections ?st' @ new"
    using parse_loop_sections_grow [of rest ?st'] by blast
  have st': "sections ?st' = sections ?st @
            (if current_content ?st \<noteq> []
             then [\<lparr>title = None, content = strip (join_nl (current_content ?st)),
                    level = 1, parent = None\<rparr>]
             else []) @
            [\<lparr>title = Some (strip (drop 4 line)), content = [], level = 2,
              parent = Some None\<rparr>]"
    by (simp add: parse_line_h3 [OF assms(4)] none)
  have "\<exists>after. parse_text src = sections ?st' @ after"
    unfolding parse_text_def run Let_def using new by simp
  then obtain after where "parse_text src = sections ?st' @ after" ..
  with st' assms(1) show ?thesis
    by (simp add: parse_markdown_def)
qed

theorem subheader_before_header_witness:
  "parse_markdown [''README.md'' \<mapsto> U ''intro\<newline>### Sub\<newline>more''] ''README.md'' =
   Inr [\<lparr>title = None, content = U ''intro'', level = 1, parent = None\<rparr>,
        \<lparr>title = Some (U ''Sub''), content = [], level = 2, parent = Some None\<rparr>]"
proof -
  have f: "[''README.md'' \<mapsto> U ''intro\<newline>### Sub\<newline>more''] ''README.md'' =
           Some (U ''intro\<newline>### Sub\<newline>more'')"
    by simp
  have s: "split_nl (U ''intro\<newline>### Sub\<newline>more'') =
           [U ''intro''] @ U ''### Sub'' # [U ''more'']"
    by (simp add: split_nl_def)
  have p: "\<forall>l\<in>set [U ''intro'']. \<not> startswith l (U ''## '') \<and> \<not> startswith l (U ''```'')"
    by simp
  have h: "startswith (U ''### Sub'') (U ''### '')" by simp
  from subheader_before_header
         [where files = "[''README.md'' \<mapsto> U ''intro\<newline>### Sub\<newline>more'']"
            and filename = "''README.md''" and src = "U ''intro\<newline>### Sub\<newline>more''"
            and pre = "[U ''intro'']" and line = "U ''### Sub''" and rest = "[U ''more'']",
          OF f s p h]
  show ?thesis
    by (simp add: parse_markdown_def parse_text_def parse_line_def str_eval)
qed

subsection \<open>Fenced code blocks\<close>







section \<open>Properties of the slide renderer\<close>

lemmas slide_eval = create_powerpoint_def content_slide_def slide_body_def slide_line_def
  empty_paragraph_def re_search_code_def

subsection \<open>Sections that hold code\<close>










subsection \<open>Sections without code\<close>

text \<open>
  C8, as the specification states it, fails: for a \<open>## A\<close> header followed by twelve plain
  lines the body of the content slide does not have exactly 10 paragraphs. It has 11:
  \<open>tf.clear()\<close> leaves the frame its one, empty, paragraph, and \<open>add_paragraph\<close> appends
  one more for each of the ten lines.
\<close>

theorem twelve_lines_counterexample:
  "length (create_powerpoint (parse_text (U ''## A\<newline>Line 1\<newline>Line 2\<newline>Line 3\<newline>Line 4\<newline>Line 5\<newline>Line 6\<newline>Line 7\<newline>Line 8\<newline>Line 9\<newline>Line 10\<newline>Line 11\<newline>Line 12''))) = 2 \<and>
   length (body (last (create_powerpoint (parse_text (U ''## A\<newline>Line 1\<newline>Line 2\<newline>Line 3\<newline>Line 4\<newline>Line 5\<newline>Line 6\<newline>Line 7\<newline>Line 8\<newline>Line 9\<newline>Line 10\<newline>Line 11\<newline>Line 12''))))) \<noteq> 10"
  by (simp add: parse_text_def parse_line_def str_eval slide_eval)

text \<open>
  C8, amended: for that input the slide renderer produces exactly one content slide,
  whose body is the empty paragraph that clearing the frame leaves, followed by exactly
  10 paragraphs, one for each of the first ten content lines; the 11th and 12th lines
  are dropped. In general the body of a slide whose content holds no \<open>[CODE]\<close> is that
  empty paragraph followed by one paragraph for each of the first 10 non-blank lines of
  the content, and for none of the others.
\<close>

theorem twelve_lines:
  "create_powerpoint (parse_text (U ''## A\<newline>Line 1\<newline>Line 2\<newline>Line 3\<newline>Line 4\<newline>Line 5\<newline>Line 6\<newline>Line 7\<newline>Line 8\<newline>Line 9\<newline>Line 10\<newline>Line 11\<newline>Line 12'')) =
     [title_slide,
      \<lparr>layout = 1, slide_title = Some (U ''A''),
       body =
         [empty_paragraph,
          \<lparr>p_text = U ''Line 1'', p_level = None, font_size = Some 14, font_name = None\<rparr>,
          \<lparr>p_text = U ''Line 2'', p_level = None, font_size = Some 14, font_name = None\<rparr>,
          \<lparr>p_text = U ''Line 3'', p_level = None, font_size = Some 14, font_name = None\<rparr>,
          \<lparr>p_text = U ''Line 4'', p_level = None, font_size = Some 14, font_name = None\<rparr>,
          \<lparr>p_text = U ''Line 5'', p_level = None, font_size = Some 14, font_name = None\<rparr>,
          \<lparr>p_text = U ''Line 6'', p_level = None, font_size = Some 14, font_name = None\<rparr>,
          \<lparr>p_text = U ''Line 7'', p_level = None, font_size = Some 14, font_name = None\<rparr>,
          \<lparr>p_text = U ''Line 8'', p_level = None, font_size = Some 14, font_name = None\<rparr>,
          \<lparr>p_text = U ''Line 9'', p_level = None, font_size = Some 14, font_name = None\<rparr>,
          \<lparr>p_text = U ''Line 10'', p_level = None, font_size = Some 14, font_name = None\<rparr>]\<rparr>]
   \<and> (\<not> contains c (U ''[CODE]'') \<longrightarrow>
        slide_body c =
          empty_paragraph #
          map slide_line (take 10 (filter (\<lambda>l. strip l \<noteq> []) (split_nl c))) \<and>
        length (slide_body c) =
          1 + min 10 (length (filter (\<lambda>l. strip l \<noteq> []) (split_nl c))))"
proof -
  have "create_powerpoint (parse_text (U ''## A\<newline>Line 1\<newline>Line 2\<newline>Line 3\<newline>Line 4\<newline>Line 5\<newline>Line 6\<newline>Line 7\<newline>Line 8\<newline>Line 9\<newline>Line 10\<newline>Line 11\<newline>Line 12'')) =
     [title_slide,
      \<lparr>layout = 1, slide_title = Some (U ''A''),
       body =
         [empty_paragraph,
          \<lparr>p_text = U ''Line 1'', p_level = None, font_size = Some 14, font_name = None\<rparr>,
          \<lparr>p_text = U ''Line 2'', p_level = None, font_size = Some 14, font_name = None\<rparr>,
          \<lparr>p_text = U ''Line 3'', p_level = None, font_size = Some 14, font_name = None\<rparr>,
          \<lparr>p_text = U ''Line 4'', p_level = None, font_size = Some 14, font_name = None\<rparr>,
          \<lparr>p_text = U ''Line 5'', p_level = None, font_size = Some 14, font_name = None\<rparr>,
          \<lparr>p_text = U ''Line 6'', p_level = None, font_size = Some 14, font_name = None\<rparr>,
          \<lparr>p_text = U ''Line 7'', p_level = None, font_size = Some 14, font_name = None\<rparr>,
          \<lparr>p_text = U ''Line 8'', p_level = None, font_size = Some 14, font_name = None\<rparr>,
          \<lparr>p_text = U ''Line 9'', p_level = None, font_size = Some 14, font_name = None\<rparr>,
          \<lparr>p_text = U ''Line 10'', p_level = None, font_size = Some 14, font_name = None\<rparr>]\<rparr>]"
    by (simp add: parse_text_def parse_line_def str_eval slide_eval)
  moreover have "\<not> contains c (U ''[CODE]'') \<Longrightarrow>
        slide_body c =
          empty_paragraph #
          map slide_line (take 10 (filter (\<lambda>l. strip l \<noteq> []) (split_nl c))) \<and>
        length (slide_body c) =
          1 + min 10 (length (filter (\<lambda>l. strip l \<noteq> []) (split_nl c)))"
    by (simp add: slide_body_def min_def)
  ultimately show ?thesis by blast
qed

theorem twelve_lines_witness:
  "length (slide_body (U ''Line 1\<newline>Line 2\<newline>Line 3\<newline>Line 4\<newline>Line 5\<newline>Line 6\<newline>Line 7\<newline>Line 8\<newline>Line 9\<newline>Line 10\<newline>Line 11\<newline>Line 12'')) = 11"
proof -
  have c: "\<not> contains (U ''Line 1\<newline>Line 2\<newline>Line 3\<newline>Line 4\<newline>Line 5\<newline>Line 6\<newline>Line 7\<newline>Line 8\<newline>Line 9\<newline>Line 10\<newline>Line 11\<newline>Line 12'') (U ''[CODE]'')"
    by simp
  have n: "length (filter (\<lambda>l. strip l \<noteq> []) (split_nl (U ''Line 1\<newline>Line 2\<newline>Line 3\<newline>Line 4\<newline>Line 5\<newline>Line 6\<newline>Line 7\<newline>Line 8\<newline>Line 9\<newline>Line 10\<newline>Line 11\<newline>Line 12''))) = 12"
    by (simp add: str_eval)
  from twelve_lines [of "U ''Line 1\<newline>Line 2\<newline>Line 3\<newline>Line 4\<newline>Line 5\<newline>Line 6\<newline>Line 7\<newline>Line 8\<newline>Line 9\<newline>Line 10\<newline>Line 11\<newline>Line 12''"] c n show ?thesis
    by simp
qed

subsection \<open>Outline levels\<close>

lemma rstrip_prefix: "\<exists>w. t = rstrip t @ w"
proof -
  have "rev t = takeWhile is_space (rev t) @ dropWhile is_space (rev t)"
    by simp
  then have "t = rev (dropWhile is_space (rev t)) @ rev (takeWhile is_space (rev t))"
    by (metis rev_append rev_rev_ident)
  then show ?thesis
    unfolding rstrip_def by blast
qed

lemma strip_no_leading_space:
  assumes "strip s = c # r"
  shows "\<not> is_space c"
proof -
  obtain w where "lstrip s = rstrip (lstrip s) @ w"
    using rstrip_prefix by blast
  with assms have "dropWhile is_space s = c # (r @ w)"
    by (simp add: strip_def lstrip_def)
  then show ?thesis
    by (simp add: dropWhile_eq_Cons_conv)
qed

lemma strip_not_indented: "\<not> startswith (strip s) (32 # p)"
proof
  assume "startswith (strip s) (32 # p)"
  then obtain r where "strip s = 32 # (p @ r)"
    by (auto dest!: startswith_ex)
  then have "\<not> is_space 32"
    by (rule strip_no_leading_space)
  then show False
    by (simp add: is_space_def)
qed

lemma slide_line_never_level1: "p_level (slide_line line) \<noteq> Some 1"
  using strip_not_indented [of _ "U '' - ''"] strip_not_indented [of _ "U '' * ''"]
  by (simp add: slide_line_def Let_def)

text \<open>
  C5, at the failing input: a section with a bullet and, under it, a bullet indented by
  two spaces. The cleaned line is stripped before the prefixes are tested, so the
  indented bullet is emitted like the first one, at outline level 0 with two characters
  removed; and no line at all is ever emitted at outline level 1.
\<close>

theorem indented_bullet_level:
  "create_powerpoint (parse_text (U ''## T\<newline>- item\<newline>  - sub item'')) =
     [title_slide,
      \<lparr>layout = 1, slide_title = Some (U ''T''),
       body =
         [empty_paragraph,
          \<lparr>p_text = U ''item'', p_level = Some 0, font_size = Some 14, font_name = None\<rparr>,
          \<lparr>p_text = U ''sub item'', p_level = Some 0, font_size = Some 14,
            font_name = None\<rparr>]\<rparr>]
   \<and> p_level (slide_line line) \<noteq> Some 1"
proof -
  have "create_powerpoint (parse_text (U ''## T\<newline>- item\<newline>  - sub item'')) =
     [title_slide,
      \<lparr>layout = 1, slide_title = Some (U ''T''),
       body =
         [empty_paragraph,
          \<lparr>p_text = U ''item'', p_level = Some 0, font_size = Some 14, font_name = None\<rparr>,
          \<lparr>p_text = U ''sub item'', p_level = Some 0, font_size = Some 14,
            font_name = None\<rparr>]\<rparr>]"
    by (simp add: parse_text_def parse_line_def str_eval slide_eval)
  then show ?thesis
    using slide_line_never_level1 [of line] by simp
qed

section \<open>Properties of the document renderer\<close>

lemmas pdf_eval = create_pdf_def pdf_section_def pdf_part_def pdf_text_line_def
  pdf_plain_line_def re_search_code_def bullet_def

text \<open>
  C4, at the failing input: a section with the text line \<open>a < b\<close> and a fenced code
  block. In a section with code sentinels the angle brackets are escaped before the
  ampersand, so the ampersand of \<open>&lt;\<close> is escaped once more and the paragraph reads
  \<open>a &amp;lt; b\<close>. The same line in a section without code is escaped in the right
  order and reads \<open>a &lt; b\<close>.
\<close>

theorem sentinel_path_double_escape:
  "create_pdf (parse_text (U ''## T\<newline>a < b\<newline>```\<newline>x\<newline>```'')) =
     [Spacer 20,
      Paragraph (Some (U ''Data Access Layer dengan Dapper'')) CustomTitle,
      Spacer 3,
      Paragraph (Some (U ''Panduan Lengkap Implementasi Dapper di .NET'')) Normal,
      PageBreak,
      Paragraph (Some (U ''T'')) CustomHeading,
      Spacer 2,
      Paragraph (Some (U ''a &amp;lt; b'')) CustomBody,
      Preformatted (U ''x'') Code,
      Spacer 1,
      Spacer 3]
   \<and> create_pdf (parse_text (U ''## T\<newline>a < b'')) =
     [Spacer 20,
      Paragraph (Some (U ''Data Access Layer dengan Dapper'')) CustomTitle,
      Spacer 3,
      Paragraph (Some (U ''Panduan Lengkap Implementasi Dapper di .NET'')) Normal,
      PageBreak,
      Paragraph (Some (U ''T'')) CustomHeading,
      Spacer 2,
      Paragraph (Some (U ''a &lt; b'')) CustomBody,
      Spacer 3]"
  by (simp add: parse_text_def parse_line_def str_eval pdf_eval)

section \<open>Properties of the verifier\<close>

lemma main_code: "main d = (if verify_powerpoint d \<and> verify_pdf d \<and> verify_documentation d then 0 else 1)"
  by (simp add: main_def results_def)

lemma verify_powerpoint_iff:
  "verify_powerpoint d \<longleftrightarrow> (\<exists>n. pptx_file d = Some (Returns n) \<and> 10 \<le> n)"
  by (auto simp: verify_powerpoint_def split: option.splits outcome.splits)

lemma verify_pdf_iff:
  "verify_pdf d \<longleftrightarrow> (\<exists>b. pdf_file d = Some (Returns b) \<and> take 5 b = U ''%PDF-'')"
  by (simp add: verify_pdf_def split: option.splits outcome.splits)

lemma verify_documentation_iff:
  "verify_documentation d \<longleftrightarrow>
     (\<exists>t. doc_file d = Some (Returns t) \<and> (\<forall>s\<in>set required_sections. contains t s))"
  by (simp add: verify_documentation_def Let_def filter_empty_conv
        split: option.splits outcome.splits)

text \<open>
  C9: the value \<open>main\<close> hands to \<open>sys.exit\<close> is 0 or 1, and it is 0 if and only if the
  three checks pass. It is 1 whenever the slide deck is absent or has fewer than 10
  slides, whenever the PDF is there and its first five bytes are not \<open>%PDF-\<close>, and
  whenever the documentation is there and lacks one of the three required substrings.
  No check raises (each is a truth value), so the three of them always run: \<open>results\<close>
  always holds the three verdicts, and the verdict of a check depends on its own file
  alone, whatever the other files are.
\<close>

theorem verifier_exit_code:
  "(main d = 0 \<longleftrightarrow> verify_powerpoint d \<and> verify_pdf d \<and> verify_documentation d)
   \<and> (main d = 0 \<or> main d = 1)
   \<and> (pptx_file d = None \<or> (\<exists>n<10. pptx_file d = Some (Returns n)) \<longrightarrow> main d = 1)
   \<and> ((\<exists>b. pdf_file d = Some (Returns b) \<and> take 5 b \<noteq> U ''%PDF-'') \<longrightarrow> main d = 1)
   \<and> ((\<exists>t s. doc_file d = Some (Returns t) \<and>
              s \<in> {U ''File Presentasi'', U ''Cara Menggunakan'', U ''Regenerate''} \<and>
              \<not> contains t s) \<longrightarrow> main d = 1)
   \<and> results d = [verify_powerpoint d, verify_pdf d, verify_documentation d]
   \<and> verify_pdf (d\<lparr>pptx_file := x\<rparr>) = verify_pdf d
   \<and> verify_documentation (d\<lparr>pptx_file := x, pdf_file := y\<rparr>) = verify_documentation d
   \<and> verify_powerpoint (d\<lparr>pdf_file := y, doc_file := z\<rparr>) = verify_powerpoint d"
proof -
  have a: "main d = 0 \<longleftrightarrow> verify_powerpoint d \<and> verify_pdf d \<and> verify_documentation d"
    by (simp add: main_code)
  have b: "main d = 0 \<or> main d = 1"
    by (simp add: main_code)
  have c: "pptx_file d = None \<or> (\<exists>n<10. pptx_file d = Some (Returns n)) \<longrightarrow> main d = 1"
    by (auto simp: main_code verify_powerpoint_iff)
  have e: "(\<exists>b. pdf_file d = Some (Returns b) \<and> take 5 b \<noteq> U ''%PDF-'') \<longrightarrow> main d = 1"
    by (auto simp: main_code verify_pdf_iff)
  have f: "(\<exists>t s. doc_file d = Some (Returns t) \<and>
              s \<in> {U ''File Presentasi'', U ''Cara Menggunakan'', U ''Regenerate''} \<and>
              \<not> contains t s) \<longrightarrow> main d = 1"
    unfolding main_code verify_documentation_iff required_sections_def by auto
  have g: "results d = [verify_powerpoint d, verify_pdf d, verify_documentation d]"
    by (simp add: results_def)
  have h: "verify_pdf (d\<lparr>pptx_file := x\<rparr>) = verify_pdf d"
    "verify_documentation (d\<lparr>pptx_file := x, pdf_file := y\<rparr>) = verify_documentation d"
    "verify_powerpoint (d\<lparr>pdf_file := y, doc_file := z\<rparr>) = verify_powerpoint d"
    by (simp_all add: verify_pdf_def verify_documentation_def verify_powerpoint_def)
  from a b c e f g h show ?thesis by blast
qed

theorem verifier_exit_code_witness:
  "main \<lparr>pptx_file = None,
         pdf_file = Some (Returns (U ''%PDF-1.4 body'')),
         doc_file = Some (Returns (U ''File Presentasi, Cara Menggunakan, Regenerate''))\<rparr> = 1
   \<and> main \<lparr>pptx_file = Some (Returns 12),
           pdf_file = Some (Returns (U ''<html>'')),
           doc_file = Some (Returns (U ''File Presentasi, Cara Menggunakan, Regenerate''))\<rparr> = 1
   \<and> main \<lparr>pptx_file = Some (Returns 12),
           pdf_file = Some (Returns (U ''%PDF-1.4 body'')),
           doc_file = Some (Returns (U ''File Presentasi, Cara Menggunakan''))\<rparr> = 1
   \<and> main \<lparr>pptx_file = Some (Returns 12),
           pdf_file = Some (Returns (U ''%PDF-1.4 body'')),
           doc_file = Some (Returns (U ''File Presentasi, Cara Menggunakan, Regenerate''))\<rparr> = 0"
  using
    verifier_exit_code [of "\<lparr>pptx_file = None,
         pdf_file = Some (Returns (U ''%PDF-1.4 body'')),
         doc_file = Some (Returns (U ''File Presentasi, Cara Menggunakan, Regenerate''))\<rparr>"]
    verifier_exit_code [of "\<lparr>pptx_file = Some (Returns 12),
           pdf_file = Some (Returns (U ''<html>'')),
           doc_file = Some (Returns (U ''File Presentasi, Cara Menggunakan, Regenerate''))\<rparr>"]
  by (simp add: main_def results_def verify_powerpoint_def verify_pdf_def
        verify_documentation_def required_sections_def)

end
